theory Spec2Isabelle
  imports Complex_Main
begin

section \<open>Docker resource estimator: sampling and estimation engine\<close>

text \<open>
  The development embeds the numeric core of three Python functions that share one
  sampling body: \<^verbatim>\<open>estimate_resources\<close> (docker_resource_estimator.py, the command
  line tool), \<^verbatim>\<open>estimate_single_image\<close> (app.py, the batch path of the web
  application) and the live-monitoring endpoints \<^verbatim>\<open>api_live_test_stats\<close> and
  \<^verbatim>\<open>api_stop_live_test\<close> (app.py).

  Python floats are idealised as rationals (\<^typ>\<open>rat\<close>): every float operation of the
  source is read as the exact operation, so IEEE rounding is not part of the model.
  Python's unbounded integers are \<^typ>\<open>int\<close>.
\<close>

subsection \<open>The stats payload\<close>

text \<open>
  One decoded stats payload of the container runtime. The source reads it with
  \<^verbatim>\<open>dict.get(key, default)\<close> throughout, so every key may be absent: an absent key
  is \<^term>\<open>None\<close> and the default of the source is applied where the key is read.
\<close>

record cpu_usage_dict =
  total_usage :: "int option"
  percpu_usage :: "int list option"

record cpu_stats_dict =
  cpu_usage :: "cpu_usage_dict option"
  system_cpu_usage :: "int option"
  online_cpus :: "int option"

record memory_stats_dict =
  usage :: "int option"

record stats_dict =
  cpu_stats :: "cpu_stats_dict option"
  precpu_stats :: "cpu_stats_dict option"
  memory_stats :: "memory_stats_dict option"

text \<open>\<^verbatim>\<open>d.get("cpu_usage", {}).get("total_usage", 0)\<close> on an optional dictionary.\<close>

definition get_total_usage :: "cpu_stats_dict option \<Rightarrow> int" where
  "get_total_usage d =
     (case d of None \<Rightarrow> 0
      | Some c \<Rightarrow> (case cpu_usage c of None \<Rightarrow> 0
                  | Some u \<Rightarrow> (case total_usage u of None \<Rightarrow> 0 | Some t \<Rightarrow> t)))"

text \<open>\<^verbatim>\<open>d.get("system_cpu_usage", 0)\<close>.\<close>

definition get_system_cpu :: "cpu_stats_dict option \<Rightarrow> int" where
  "get_system_cpu d =
     (case d of None \<Rightarrow> 0
      | Some c \<Rightarrow> (case system_cpu_usage c of None \<Rightarrow> 0 | Some s \<Rightarrow> s))"

definition cpu_delta :: "stats_dict \<Rightarrow> int" where
  "cpu_delta s = get_total_usage (cpu_stats s) - get_total_usage (precpu_stats s)"

definition system_delta :: "stats_dict \<Rightarrow> int" where
  "system_delta s = get_system_cpu (cpu_stats s) - get_system_cpu (precpu_stats s)"

text \<open>
  \<^verbatim>\<open>cpu_stats.get("cpu_usage", {}).get("percpu_usage", [])\<close>: the list, or the empty
  list when a key on the way is absent.
\<close>

definition get_percpu_usage :: "cpu_stats_dict option \<Rightarrow> int list" where
  "get_percpu_usage d =
     (case d of None \<Rightarrow> []
      | Some c \<Rightarrow> (case cpu_usage c of None \<Rightarrow> []
                  | Some u \<Rightarrow> (case percpu_usage u of None \<Rightarrow> [] | Some l \<Rightarrow> l)))"

text \<open>
  \<^verbatim>\<open>online_cpus = cpu_stats.get("online_cpus")\<close>
  \<^verbatim>\<open>if not online_cpus:\<close>
  \<^verbatim>\<open>    percpu_usage = ...\<close>
  \<^verbatim>\<open>    online_cpus = len(percpu_usage) if percpu_usage else 1\<close>
  \<^verbatim>\<open>not online_cpus\<close> holds for an absent key and for the value 0.
\<close>

definition get_online_cpus :: "stats_dict \<Rightarrow> int" where
  "get_online_cpus s =
     (let explicit = (case cpu_stats s of None \<Rightarrow> None | Some c \<Rightarrow> online_cpus c)
      in if explicit = None \<or> explicit = Some 0
         then (let percpu = get_percpu_usage (cpu_stats s)
               in if percpu \<noteq> [] then int (length percpu) else 1)
         else the explicit)"

text \<open>The guard \<^verbatim>\<open>system_delta > 0 and cpu_delta >= 0\<close>.\<close>

definition delta_guard :: "stats_dict \<Rightarrow> bool" where
  "delta_guard s \<longleftrightarrow> system_delta s > 0 \<and> cpu_delta s \<ge> 0"

text \<open>\<^verbatim>\<open>(cpu_delta / system_delta) * online_cpus * 100.0\<close>, Python's true division.\<close>

definition cpu_percent :: "stats_dict \<Rightarrow> rat" where
  "cpu_percent s =
     (of_int (cpu_delta s) / of_int (system_delta s)) * of_int (get_online_cpus s) * 100"

text \<open>\<^verbatim>\<open>stats.get("memory_stats", {}).get("usage", 0) / (1024 ** 2)\<close>.\<close>

definition mem_usage :: "stats_dict \<Rightarrow> rat" where
  "mem_usage s =
     of_int (case memory_stats s of None \<Rightarrow> 0
             | Some m \<Rightarrow> (case usage m of None \<Rightarrow> 0 | Some b \<Rightarrow> b)) / (1024 ^ 2)"

subsection \<open>The collection loop of the batch paths\<close>

text \<open>
  The three loop variables of \<^verbatim>\<open>estimate_resources\<close> and
  \<^verbatim>\<open>estimate_single_image\<close>.
\<close>

record history =
  cpu_usages :: "rat list"
  mem_usages :: "rat list"
  sample_count :: nat

definition empty_history :: history where
  "empty_history = \<lparr>cpu_usages = [], mem_usages = [], sample_count = 0\<rparr>"

text \<open>
  The part of one loop iteration that follows the decoding of the payload:
  \<^verbatim>\<open>if system_delta > 0 and cpu_delta >= 0:\<close>
  \<^verbatim>\<open>    cpu_usages.append(cpu_percent)\<close>
  \<^verbatim>\<open>mem_usages.append(mem_usage)\<close>
  \<^verbatim>\<open>sample_count += 1\<close>
\<close>

definition record_sample :: "history \<Rightarrow> stats_dict \<Rightarrow> history" where
  "record_sample h s =
     \<lparr>cpu_usages = (if delta_guard s then cpu_usages h @ [cpu_percent s] else cpu_usages h),
      mem_usages = mem_usages h @ [mem_usage s],
      sample_count = sample_count h + 1\<rparr>"

text \<open>
  Exceptions of the source, with the text of \<^verbatim>\<open>str(e)\<close> where the source reads it.
  \<open>APIError\<close> and \<open>ContainerError\<close> are the two classes of the docker library the source
  names; \<open>OtherException\<close> is any other subclass of \<^verbatim>\<open>Exception\<close>.
\<close>

datatype exn =
    APIError string
  | ContainerError string
  | StatisticsError
  | ValueError
  | KeyboardInterrupt
  | OtherException string

text \<open>
  \<^verbatim>\<open>except Exception\<close> catches every class above but \<^verbatim>\<open>KeyboardInterrupt\<close>, which
  derives from \<^verbatim>\<open>BaseException\<close> only.
\<close>

definition is_Exception :: "exn \<Rightarrow> bool" where
  "is_Exception e \<longleftrightarrow> e \<noteq> KeyboardInterrupt"

text \<open>
  What the environment does in one iteration of
  \<^verbatim>\<open>while time.time() - start < test_duration\<close>, given that the loop condition held:
  the container is no longer running, the stats stream yields a payload, the stream ends
  or a key is missing (\<^verbatim>\<open>StopIteration\<close>, \<^verbatim>\<open>KeyError\<close>, caught inside the loop), or
  something else is raised. The loop condition fails when the list of events is used up.
\<close>

datatype poll =
    NotRunning
  | Snapshot stats_dict
  | StreamEnd
  | Raise exn

datatype loop_end = TimeUp | Exited | Stopped | Raised exn

fun collect :: "poll list \<Rightarrow> history \<Rightarrow> history \<times> loop_end" where
  "collect [] h = (h, TimeUp)"
| "collect (NotRunning # ps) h = (h, Exited)"
| "collect (Snapshot s # ps) h = collect ps (record_sample h s)"
| "collect (StreamEnd # ps) h = (h, Stopped)"
| "collect (Raise e # ps) h = (h, Raised e)"

subsection \<open>Statistics and rounding primitives of the runtime\<close>

text \<open>
  \<^verbatim>\<open>statistics.mean\<close> and the built-in \<^verbatim>\<open>max\<close> raise on an empty sequence
  (\<^verbatim>\<open>StatisticsError\<close>, \<^verbatim>\<open>ValueError\<close>).
\<close>

definition statistics_mean :: "rat list \<Rightarrow> exn + rat" where
  "statistics_mean xs =
     (if xs = [] then Inl StatisticsError else Inr (sum_list xs / of_nat (length xs)))"

definition py_max :: "rat list \<Rightarrow> exn + rat" where
  "py_max xs = (case xs of [] \<Rightarrow> Inl ValueError | x # ys \<Rightarrow> Inr (fold max ys x))"

text \<open>
  The built-in \<^verbatim>\<open>round\<close> belongs to the Python runtime, not to the repository. With
  one argument CPython computes the C library's \<^verbatim>\<open>round(x)\<close> (nearest integer, a
  halfway case away from zero) and, when \<^verbatim>\<open>fabs(x - rounded) == 0.5\<close>, replaces it by
  \<^verbatim>\<open>2.0 * round(x / 2.0)\<close>. With \<^verbatim>\<open>ndigits\<close> it rounds the decimal expansion at
  that digit with the same tie rule.
\<close>

definition c_round :: "rat \<Rightarrow> int" where
  "c_round x = (if x \<ge> 0 then \<lfloor>x + 1/2\<rfloor> else \<lceil>x - 1/2\<rceil>)"

definition py_round :: "rat \<Rightarrow> int" where
  "py_round x =
     (let rounded = c_round x
      in if \<bar>x - of_int rounded\<bar> = 1/2 then 2 * c_round (x / 2) else rounded)"

definition py_round_ndigits :: "rat \<Rightarrow> nat \<Rightarrow> rat" where
  "py_round_ndigits x ndigits = of_int (py_round (x * 10 ^ ndigits)) / 10 ^ ndigits"

subsection \<open>Aggregation and sizing\<close>

text \<open>
  The result of the aggregation step, lines 158 to 164 of app.py and 188 to 195 of
  docker_resource_estimator.py:
  \<^verbatim>\<open>if not cpu_usages or not mem_usages:\<close>
  \<^verbatim>\<open>    return {"error": "No stats collected. Container may have exited too early."}\<close>
  \<^verbatim>\<open>avg_cpu = statistics.mean(cpu_usages)\<close>
  \<^verbatim>\<open>peak_cpu = max(cpu_usages)\<close>
  \<^verbatim>\<open>avg_mem = statistics.mean(mem_usages)\<close>
  \<^verbatim>\<open>peak_mem = max(mem_usages)\<close>
  The command line tool prints the message and calls \<^verbatim>\<open>sys.exit(1)\<close> instead of
  returning the dictionary. An exception of \<^verbatim>\<open>mean\<close> or \<^verbatim>\<open>max\<close> would leave the
  step as \<open>Uncaught\<close>.
\<close>

record aggregate_stats =
  avg_cpu :: rat
  peak_cpu :: rat
  avg_mem :: rat
  peak_mem :: rat

datatype aggregate_result =
    NoStatsCollected
  | Uncaught exn
  | Stats aggregate_stats

definition aggregate :: "rat list \<Rightarrow> rat list \<Rightarrow> aggregate_result" where
  "aggregate cpu mem =
     (if cpu = [] \<or> mem = [] then NoStatsCollected
      else (case statistics_mean cpu of Inl e \<Rightarrow> Uncaught e | Inr ac \<Rightarrow>
           (case py_max cpu of Inl e \<Rightarrow> Uncaught e | Inr pc \<Rightarrow>
           (case statistics_mean mem of Inl e \<Rightarrow> Uncaught e | Inr am \<Rightarrow>
           (case py_max mem of Inl e \<Rightarrow> Uncaught e | Inr pm \<Rightarrow>
             Stats \<lparr>avg_cpu = ac, peak_cpu = pc, avg_mem = am, peak_mem = pm\<rparr>)))))"

text \<open>
  \<^verbatim>\<open>recommended_vcpu = max(1, round(peak_cpu / 80))\<close>
  \<^verbatim>\<open>recommended_ram = round(peak_mem * 1.5 / 1024, 2)\<close>
\<close>

definition recommended_vcpu :: "rat \<Rightarrow> int" where
  "recommended_vcpu peak = max 1 (py_round (peak / 80))"

definition recommended_ram :: "rat \<Rightarrow> rat" where
  "recommended_ram peak = py_round_ndigits (peak * 1.5 / 1024) 2"

record instances =
  aws :: string
  gcp :: string
  azure :: string

text \<open>\<^verbatim>\<open>get_instance_recommendations(vcpu, ram_gb)\<close> of app.py.\<close>

definition get_instance_recommendations :: "int \<Rightarrow> rat \<Rightarrow> instances" where
  "get_instance_recommendations vcpu ram_gb =
     (if vcpu = 1 \<and> ram_gb \<le> 1 then
        \<lparr>aws = ''t3.micro'', gcp = ''e2-micro'', azure = ''B1s''\<rparr>
      else if vcpu = 1 \<and> ram_gb \<le> 2 then
        \<lparr>aws = ''t3.small'', gcp = ''e2-small'', azure = ''B1ms''\<rparr>
      else if vcpu = 2 then
        \<lparr>aws = ''t3.medium'', gcp = ''e2-medium'', azure = ''B2s''\<rparr>
      else
        \<lparr>aws = ''t3.large+'', gcp = ''e2-standard+'', azure = ''B2ms+''\<rparr>)"

text \<open>
  The same table as \<^verbatim>\<open>estimate_resources\<close> of docker_resource_estimator.py prints
  it (lines 209 to 217), on \<^verbatim>\<open>recommended_vcpu\<close> and \<^verbatim>\<open>recommended_ram\<close>. Each
  branch prints one line
  \<^verbatim>\<open>AWS: <a> / GCP: <g> / Azure: <z>\<close>; the line is modelled by its three names.
\<close>

definition printed_instances :: "int \<Rightarrow> rat \<Rightarrow> instances" where
  "printed_instances vcpu ram =
     (if vcpu = 1 \<and> ram \<le> 1 then
        \<lparr>aws = ''t3.micro'', gcp = ''e2-micro'', azure = ''B1s''\<rparr>
      else if vcpu = 1 \<and> ram \<le> 2 then
        \<lparr>aws = ''t3.small'', gcp = ''e2-small'', azure = ''B1ms''\<rparr>
      else if vcpu = 2 then
        \<lparr>aws = ''t3.medium'', gcp = ''e2-medium'', azure = ''B2s''\<rparr>
      else
        \<lparr>aws = ''t3.large+'', gcp = ''e2-standard'', azure = ''B2ms+''\<rparr>)"

subsection \<open>Starting the container\<close>

text \<open>
  The \<^verbatim>\<open>command\<close> argument of \<^verbatim>\<open>client.containers.run\<close>: a string, or a list of
  strings. \<open>Run None\<close> is a call without the argument, which leaves the image's own
  default command in place.
\<close>

datatype command = Shell string | Argv "string list"

datatype launch = Started | Fails exn

datatype docker_call = Run "command option" | Stop | Remove

text \<open>Python's \<^verbatim>\<open>needle in haystack\<close> on strings.\<close>

primrec str_in :: "string \<Rightarrow> string \<Rightarrow> bool" where
  "str_in needle [] = (needle = [])"
| "str_in needle (c # cs) = (take (length needle) (c # cs) = needle \<or> str_in needle cs)"

text \<open>Truthiness of \<^verbatim>\<open>custom_command\<close>: \<^verbatim>\<open>None\<close> and the empty string are false.\<close>

definition given :: "string option \<Rightarrow> bool" where
  "given custom_command \<longleftrightarrow> custom_command \<noteq> None \<and> custom_command \<noteq> Some []"

text \<open>
  How the start phase ends: the container runs; the function gives up with a start
  error (\<^verbatim>\<open>return {"error": "Failed to start container: ..."}\<close> in app.py, a printed
  message and \<^verbatim>\<open>sys.exit(1)\<close> in the command line tool); or an exception that no
  handler of the start phase catches leaves it.
\<close>

datatype start_result = Running | StartFailed exn | StartRaised exn

text \<open>Lines 76 to 91 of app.py (\<^verbatim>\<open>estimate_single_image\<close>).\<close>

definition start_container ::
  "(command option \<Rightarrow> launch) \<Rightarrow> string option \<Rightarrow> docker_call list \<times> start_result" where
  "start_container run custom_command =
     (let cmd = Shell (if given custom_command then the custom_command
                       else ''tail -f /dev/null'');
          sleep = Shell ''sleep infinity''
      in case run (Some cmd) of
           Started \<Rightarrow> ([Run (Some cmd)], Running)
         | Fails e \<Rightarrow>
            (case e of
               APIError msg \<Rightarrow>
                 if str_in ''executable file not found'' msg \<and> \<not> given custom_command then
                   (case run (Some sleep) of
                      Started \<Rightarrow> ([Run (Some cmd), Run (Some sleep)], Running)
                    | Fails e1 \<Rightarrow>
                       (case run None of
                          Started \<Rightarrow> ([Run (Some cmd), Run (Some sleep), Run None], Running)
                        | Fails final_e \<Rightarrow>
                           ([Run (Some cmd), Run (Some sleep), Run None],
                            if is_Exception final_e then StartFailed final_e
                            else StartRaised final_e)))
                 else ([Run (Some cmd)], StartFailed e)
             | _ \<Rightarrow> ([Run (Some cmd)], StartRaised e)))"

text \<open>
  Lines 73 to 112 of docker_resource_estimator.py (\<^verbatim>\<open>estimate_resources\<close>). The
  first call catches \<^verbatim>\<open>ContainerError\<close> and \<^verbatim>\<open>APIError\<close>, every retry catches
  \<^verbatim>\<open>APIError\<close> only.
\<close>

definition start_container_cli ::
  "(command option \<Rightarrow> launch) \<Rightarrow> string option \<Rightarrow> docker_call list \<times> start_result" where
  "start_container_cli run custom_command =
     (let cmd = Shell (if given custom_command then the custom_command
                       else ''tail -f /dev/null'');
          sleep = Shell ''sleep infinity'';
          sh_sleep = Argv [''/bin/sh'', ''-c'', ''sleep infinity'']
      in case run (Some cmd) of
           Started \<Rightarrow> ([Run (Some cmd)], Running)
         | Fails e \<Rightarrow>
            (case e of
               ContainerError msg \<Rightarrow> ([Run (Some cmd)], StartFailed e)
             | APIError msg \<Rightarrow>
                 if str_in ''executable file not found'' msg \<and> \<not> given custom_command then
                   (case run (Some sleep) of
                      Started \<Rightarrow> ([Run (Some cmd), Run (Some sleep)], Running)
                    | Fails e1 \<Rightarrow>
                       (case e1 of
                          APIError m1 \<Rightarrow>
                            (case run (Some sh_sleep) of
                               Started \<Rightarrow>
                                 ([Run (Some cmd), Run (Some sleep), Run (Some sh_sleep)],
                                  Running)
                             | Fails e2 \<Rightarrow>
                                (case e2 of
                                   APIError m2 \<Rightarrow>
                                     (case run None of
                                        Started \<Rightarrow>
                                          ([Run (Some cmd), Run (Some sleep),
                                            Run (Some sh_sleep), Run None], Running)
                                      | Fails final_e \<Rightarrow>
                                          ([Run (Some cmd), Run (Some sleep),
                                            Run (Some sh_sleep), Run None],
                                           case final_e of
                                             APIError m3 \<Rightarrow> StartFailed final_e
                                           | _ \<Rightarrow> StartRaised final_e))
                                 | _ \<Rightarrow>
                                     ([Run (Some cmd), Run (Some sleep), Run (Some sh_sleep)],
                                      StartRaised e2)))
                        | _ \<Rightarrow> ([Run (Some cmd), Run (Some sleep)], StartRaised e1)))
                 else ([Run (Some cmd)], StartFailed e)
             | _ \<Rightarrow> ([Run (Some cmd)], StartRaised e)))"

subsection \<open>The environment of one run, and cleanup\<close>

text \<open>
  What the container runtime does during one run: whether the image is available
  (locally, after a pull, or the pull raises \<^verbatim>\<open>APIError\<close> with the given text), the
  outcome of each launch command, the events of the collection loop, and whether
  \<^verbatim>\<open>container.stop()\<close> and \<^verbatim>\<open>container.remove()\<close> raise.
\<close>

datatype image_lookup = Local | Pulled | PullFails string

record env =
  images :: image_lookup
  run :: "command option \<Rightarrow> launch"
  polls :: "poll list"
  stop_raises :: "exn option"
  remove_raises :: "exn option"

text \<open>
  The statement pair \<^verbatim>\<open>container.stop(); container.remove()\<close>, which all paths use:
  the calls made and the exception that leaves the pair, if any.
\<close>

definition stop_and_remove :: "exn option \<Rightarrow> exn option \<Rightarrow> docker_call list \<times> exn option" where
  "stop_and_remove stop_exn remove_exn =
     (case stop_exn of Some e \<Rightarrow> ([Stop], Some e) | None \<Rightarrow> ([Stop, Remove], remove_exn))"

subsection \<open>\<^verbatim>\<open>estimate_single_image\<close> (app.py)\<close>

text \<open>
  The dictionary the function returns: an error text, or the report. \<open>ErrorStr e\<close> is
  \<^verbatim>\<open>{"error": str(e)}\<close> of the outermost handler.
\<close>

datatype error_dict =
    FailedToPull string
  | FailedToStart exn
  | NoStats
  | ErrorStr exn

record report =
  image :: string
  duration_sec :: int
  cpu_avg :: rat
  cpu_peak :: rat
  mem_avg_mb :: rat
  mem_peak_mb :: rat
  vcpu :: int
  ram_gb :: rat
  instance_names :: instances
  samples :: nat

datatype single_result = Error error_dict | Report report | Escapes exn

text \<open>
  The outermost \<^verbatim>\<open>except Exception as e: return {"error": str(e)}\<close>; an exception that
  is not an \<^verbatim>\<open>Exception\<close> leaves the function.
\<close>

definition outer_handler :: "exn \<Rightarrow> single_result" where
  "outer_handler e = (if is_Exception e then Error (ErrorStr e) else Escapes e)"

text \<open>
  The whole function, with the calls it makes to start, stop and remove containers. The
  cleanup of the \<^verbatim>\<open>finally\<close> block is \<^verbatim>\<open>try: stop(); remove()\<close> under a bare
  \<^verbatim>\<open>except: pass\<close>, so whatever it raises is dropped.
\<close>

definition estimate_single_image ::
  "env \<Rightarrow> string \<Rightarrow> int \<Rightarrow> string option \<Rightarrow> docker_call list \<times> single_result" where
  "estimate_single_image environment image_name test_duration custom_command =
     (case images environment of
        PullFails msg \<Rightarrow> ([], Error (FailedToPull msg))
      | _ \<Rightarrow>
        (case start_container (run environment) custom_command of
           (started, StartFailed e) \<Rightarrow> (started, Error (FailedToStart e))
         | (started, StartRaised e) \<Rightarrow> (started, outer_handler e)
         | (started, Running) \<Rightarrow>
            (let (h, ending) = collect (polls environment) empty_history;
                 (cleanup, dropped) =
                    stop_and_remove (stop_raises environment) (remove_raises environment)
             in (started @ cleanup,
                 case ending of
                   Raised e \<Rightarrow> outer_handler e
                 | _ \<Rightarrow>
                   (case aggregate (cpu_usages h) (mem_usages h) of
                      NoStatsCollected \<Rightarrow> Error NoStats
                    | Uncaught e \<Rightarrow> outer_handler e
                    | Stats a \<Rightarrow>
                       (let recommended_vcpu = recommended_vcpu (peak_cpu a);
                            recommended_ram = recommended_ram (peak_mem a)
                        in Report
                             \<lparr>image = image_name,
                              duration_sec = test_duration,
                              cpu_avg = py_round_ndigits (avg_cpu a) 2,
                              cpu_peak = py_round_ndigits (peak_cpu a) 2,
                              mem_avg_mb = py_round_ndigits (avg_mem a) 2,
                              mem_peak_mb = py_round_ndigits (peak_mem a) 2,
                              vcpu = recommended_vcpu,
                              ram_gb = recommended_ram,
                              instance_names =
                                get_instance_recommendations recommended_vcpu recommended_ram,
                              samples = sample_count h\<rparr>))))))"

subsection \<open>\<^verbatim>\<open>estimate_resources\<close> (docker_resource_estimator.py)\<close>

text \<open>
  The messages the function prints from the collection phase on (the banner lines and
  the resource summary are left out), and how it ends: \<^verbatim>\<open>sys.exit(1)\<close>, the report
  written to \<^verbatim>\<open>resource_report.json\<close>, or an exception nothing catches.
\<close>

datatype message =
    ContainerExited nat
  | StatsUnavailable nat
  | Interrupted
  | CollectionError exn
  | CleaningUp
  | CleanupError exn
  | NoStatsMessage
  | RecommendedInstances instances

record resource_report =
  report_image :: string
  report_duration_sec :: int
  report_stats :: aggregate_stats
  report_vcpu :: int
  report_ram_gb :: rat

datatype cli_result = SysExit1 | Saved resource_report | Crashed exn

text \<open>What the handlers around the loop print for each way the loop can end.\<close>

definition collection_messages :: "history \<Rightarrow> loop_end \<Rightarrow> message list" where
  "collection_messages h ending =
     (case ending of
        TimeUp \<Rightarrow> []
      | Exited \<Rightarrow> [ContainerExited (sample_count h)]
      | Stopped \<Rightarrow> [StatsUnavailable (sample_count h)]
      | Raised e \<Rightarrow> if e = KeyboardInterrupt then [Interrupted] else [CollectionError e])"

text \<open>
  The \<^verbatim>\<open>finally\<close> block: \<^verbatim>\<open>try: stop(); remove()\<close> under
  \<^verbatim>\<open>except Exception as e: print(...)\<close>. The last component is an exception that
  the handler does not catch.
\<close>

definition cleanup_cli ::
  "exn option \<Rightarrow> exn option \<Rightarrow> docker_call list \<times> message list \<times> exn option" where
  "cleanup_cli stop_exn remove_exn =
     (case stop_and_remove stop_exn remove_exn of
        (calls, None) \<Rightarrow> (calls, [CleaningUp], None)
      | (calls, Some e) \<Rightarrow>
          if is_Exception e then (calls, [CleaningUp, CleanupError e], None)
          else (calls, [CleaningUp], Some e))"

definition estimate_resources ::
  "env \<Rightarrow> string \<Rightarrow> int \<Rightarrow> string option \<Rightarrow> docker_call list \<times> message list \<times> cli_result" where
  "estimate_resources environment image_name test_duration custom_command =
     (case images environment of
        PullFails msg \<Rightarrow> ([], [], SysExit1)
      | _ \<Rightarrow>
        (case start_container_cli (run environment) custom_command of
           (started, StartFailed e) \<Rightarrow> (started, [], SysExit1)
         | (started, StartRaised e) \<Rightarrow> (started, [], Crashed e)
         | (started, Running) \<Rightarrow>
            (let (h, ending) = collect (polls environment) empty_history;
                 printed = collection_messages h ending;
                 (cleanup, logged, escaping) =
                    cleanup_cli (stop_raises environment) (remove_raises environment)
             in case escaping of
                  Some e \<Rightarrow> (started @ cleanup, printed @ logged, Crashed e)
                | None \<Rightarrow>
                  (case aggregate (cpu_usages h) (mem_usages h) of
                     NoStatsCollected \<Rightarrow>
                       (started @ cleanup, printed @ logged @ [NoStatsMessage], SysExit1)
                   | Uncaught e \<Rightarrow> (started @ cleanup, printed @ logged, Crashed e)
                   | Stats a \<Rightarrow>
                      (let recommended_vcpu = recommended_vcpu (peak_cpu a);
                           recommended_ram = recommended_ram (peak_mem a)
                       in (started @ cleanup,
                           printed @ logged @
                             [RecommendedInstances
                                (printed_instances recommended_vcpu recommended_ram)],
                           Saved \<lparr>report_image = image_name,
                                  report_duration_sec = test_duration,
                                  report_stats = a,
                                  report_vcpu = recommended_vcpu,
                                  report_ram_gb = recommended_ram\<rparr>))))))"

subsection \<open>Live monitoring (app.py)\<close>

text \<open>
  The global \<^verbatim>\<open>live_containers\<close>: container id to the entry that
  \<^verbatim>\<open>api_start_live_test\<close> stores. The fields of an entry are \<^verbatim>\<open>image\<close>,
  \<^verbatim>\<open>cpu_history\<close>, \<^verbatim>\<open>mem_history\<close> and \<^verbatim>\<open>samples\<close>; the container handle, the
  start time and the log text are left out, and so are the response fields computed
  from the clock and the logs.
\<close>

record container_info =
  info_image :: string
  cpu_history :: "rat list"
  mem_history :: "rat list"
  info_samples :: nat

type_synonym registry = "string \<rightharpoonup> container_info"

text \<open>The entry of lines 2229 to 2237, stored under the id of the new container.\<close>

definition new_container_info :: "string \<Rightarrow> container_info" where
  "new_container_info image_name =
     \<lparr>info_image = image_name, cpu_history = [], mem_history = [], info_samples = 0\<rparr>"

text \<open>
  What the runtime does in one call of \<^verbatim>\<open>api_live_test_stats\<close>: the container is
  not running, \<^verbatim>\<open>container.stats(stream=False)\<close> returns a payload, or a call raises.
\<close>

datatype live_poll = NotRunningNow | Payload stats_dict | Failing exn

datatype api_error = ContainerNotFound | ContainerNotRunning | ExceptionText exn

record live_stats =
  cpu_current :: rat
  live_cpu_avg :: rat
  live_cpu_peak :: rat
  mem_current :: rat
  live_mem_avg :: rat
  live_mem_peak :: rat
  live_samples :: nat

datatype stats_response = StatsError api_error | StatsSuccess live_stats | StatsEscapes exn

text \<open>\<^verbatim>\<open>statistics.mean(xs) if xs else 0\<close> and \<^verbatim>\<open>max(xs) if xs else 0\<close>.\<close>

definition mean_or_0 :: "rat list \<Rightarrow> exn + rat" where
  "mean_or_0 xs = (if xs \<noteq> [] then statistics_mean xs else Inr 0)"

definition max_or_0 :: "rat list \<Rightarrow> exn + rat" where
  "max_or_0 xs = (if xs \<noteq> [] then py_max xs else Inr 0)"

text \<open>\<^verbatim>\<open>except Exception as e: return jsonify({'status': 'error', 'error': str(e)})\<close>.\<close>

definition stats_handler :: "exn \<Rightarrow> stats_response" where
  "stats_handler e = (if is_Exception e then StatsError (ExceptionText e) else StatsEscapes e)"

text \<open>
  \<^verbatim>\<open>cpu_percent = 0\<close>
  \<^verbatim>\<open>if system_delta > 0 and cpu_delta >= 0:\<close>
  \<^verbatim>\<open>    cpu_percent = (cpu_delta / system_delta) * online_cpus * 100.0\<close>
\<close>

definition live_cpu_percent :: "stats_dict \<Rightarrow> rat" where
  "live_cpu_percent s = (if delta_guard s then cpu_percent s else 0)"

text \<open>
  The three updates under \<^verbatim>\<open># Update history\<close>: both appends and the increment are
  unconditional.
\<close>

definition update_history :: "container_info \<Rightarrow> stats_dict \<Rightarrow> container_info" where
  "update_history info s =
     info\<lparr>cpu_history := cpu_history info @ [live_cpu_percent s],
          mem_history := mem_history info @ [mem_usage s],
          info_samples := info_samples info + 1\<rparr>"

definition api_live_test_stats ::
  "registry \<Rightarrow> string \<Rightarrow> live_poll \<Rightarrow> stats_response \<times> registry" where
  "api_live_test_stats live_containers container_id p =
     (case live_containers container_id of
        None \<Rightarrow> (StatsError ContainerNotFound, live_containers)
      | Some info \<Rightarrow>
         (case p of
            Failing e \<Rightarrow> (stats_handler e, live_containers)
          | NotRunningNow \<Rightarrow> (StatsError ContainerNotRunning, live_containers)
          | Payload s \<Rightarrow>
             (let info' = update_history info s;
                  live_containers' = live_containers(container_id \<mapsto> info');
                  response =
                    (case mean_or_0 (cpu_history info') of Inl e \<Rightarrow> stats_handler e | Inr ca \<Rightarrow>
                    (case max_or_0 (cpu_history info') of Inl e \<Rightarrow> stats_handler e | Inr cp \<Rightarrow>
                    (case mean_or_0 (mem_history info') of Inl e \<Rightarrow> stats_handler e | Inr ma \<Rightarrow>
                    (case max_or_0 (mem_history info') of Inl e \<Rightarrow> stats_handler e | Inr mp \<Rightarrow>
                       StatsSuccess
                         \<lparr>cpu_current = live_cpu_percent s,
                          live_cpu_avg = ca,
                          live_cpu_peak = cp,
                          mem_current = mem_usage s,
                          live_mem_avg = ma,
                          live_mem_peak = mp,
                          live_samples = info_samples info'\<rparr>))))
              in (response, live_containers'))))"

text \<open>
  The \<^verbatim>\<open>recommendations\<close> dictionary of \<^verbatim>\<open>api_stop_live_test\<close>, with the entries
  of its \<^verbatim>\<open>stats\<close> dictionary alongside (\<^verbatim>\<open>duration_sec\<close> reads the clock and is
  left out).
\<close>

record recommendations =
  rec_vcpu :: int
  rec_ram_gb :: rat
  rec_instances :: instances
  rec_cpu_avg :: rat
  rec_cpu_peak :: rat
  rec_mem_avg_mb :: rat
  rec_mem_peak_mb :: rat
  rec_samples :: nat

datatype stop_response =
    StopError api_error
  | StopSuccess "recommendations option"
  | StopEscapes exn

definition stop_handler :: "exn \<Rightarrow> stop_response" where
  "stop_handler e = (if is_Exception e then StopError (ExceptionText e) else StopEscapes e)"

text \<open>
  Lines 2347 to 2376: \<^verbatim>\<open>recommendations = None\<close>, replaced by the dictionary under
  \<^verbatim>\<open>if cpu_history and mem_history\<close>.
\<close>

definition live_recommendations :: "container_info \<Rightarrow> exn + recommendations option" where
  "live_recommendations info =
     (if cpu_history info \<noteq> [] \<and> mem_history info \<noteq> [] then
        (case statistics_mean (cpu_history info) of Inl e \<Rightarrow> Inl e | Inr ca \<Rightarrow>
        (case py_max (cpu_history info) of Inl e \<Rightarrow> Inl e | Inr cp \<Rightarrow>
        (case statistics_mean (mem_history info) of Inl e \<Rightarrow> Inl e | Inr ma \<Rightarrow>
        (case py_max (mem_history info) of Inl e \<Rightarrow> Inl e | Inr mp \<Rightarrow>
           (let recommended_vcpu = recommended_vcpu cp;
                recommended_ram = recommended_ram mp
            in Inr (Some
                 \<lparr>rec_vcpu = recommended_vcpu,
                  rec_ram_gb = recommended_ram,
                  rec_instances =
                    get_instance_recommendations recommended_vcpu recommended_ram,
                  rec_cpu_avg = py_round_ndigits ca 2,
                  rec_cpu_peak = py_round_ndigits cp 2,
                  rec_mem_avg_mb = py_round_ndigits ma 2,
                  rec_mem_peak_mb = py_round_ndigits mp 2,
                  rec_samples = info_samples info\<rparr>))))))
      else Inr None)"

text \<open>
  The whole endpoint: the response, the registry afterwards and the calls made on the
  container. \<^verbatim>\<open>container.stop()\<close>, \<^verbatim>\<open>container.remove()\<close> and
  \<^verbatim>\<open>del live_containers[container_id]\<close> stand inside the one \<^verbatim>\<open>try\<close> whose handler
  returns the error response.
\<close>

definition api_stop_live_test ::
  "registry \<Rightarrow> string \<Rightarrow> exn option \<Rightarrow> exn option \<Rightarrow>
     stop_response \<times> registry \<times> docker_call list" where
  "api_stop_live_test live_containers container_id stop_exn remove_exn =
     (case live_containers container_id of
        None \<Rightarrow> (StopError ContainerNotFound, live_containers, [])
      | Some info \<Rightarrow>
         (case live_recommendations info of
            Inl e \<Rightarrow> (stop_handler e, live_containers, [])
          | Inr recommendations \<Rightarrow>
             (case stop_and_remove stop_exn remove_exn of
                (calls, Some e) \<Rightarrow> (stop_handler e, live_containers, calls)
              | (calls, None) \<Rightarrow>
                  (StopSuccess recommendations, live_containers(container_id := None),
                   calls))))"

subsection \<open>Reference definitions and example payloads\<close>

text \<open>
  The resolution order of the online CPU count, in the words of the specification: the
  explicit online-CPU field if present and nonzero, else the length of the per-CPU
  usage array if present and non-empty, else 1.
\<close>

definition online_cpu_count_spec :: "int option \<Rightarrow> int list option \<Rightarrow> int" where
  "online_cpu_count_spec explicit_field percpu_array =
     (case explicit_field of
        Some n \<Rightarrow>
          if n \<noteq> 0 then n
          else (case percpu_array of
                  Some l \<Rightarrow> if l \<noteq> [] then int (length l) else 1
                | None \<Rightarrow> 1)
      | None \<Rightarrow>
          (case percpu_array of
             Some l \<Rightarrow> if l \<noteq> [] then int (length l) else 1
           | None \<Rightarrow> 1))"

text \<open>The two fields the resolution reads, as the payload holds them.\<close>

definition online_cpus_field :: "stats_dict \<Rightarrow> int option" where
  "online_cpus_field s = (case cpu_stats s of None \<Rightarrow> None | Some c \<Rightarrow> online_cpus c)"

definition percpu_usage_field :: "stats_dict \<Rightarrow> int list option" where
  "percpu_usage_field s =
     (case cpu_stats s of None \<Rightarrow> None
      | Some c \<Rightarrow> (case cpu_usage c of None \<Rightarrow> None | Some u \<Rightarrow> percpu_usage u))"

text \<open>A payload built from its counters; the per-CPU array is absent.\<close>

definition payload ::
  "int \<Rightarrow> int \<Rightarrow> int option \<Rightarrow> cpu_stats_dict option \<Rightarrow> int option \<Rightarrow> stats_dict" where
  "payload container_ns system_ns cpus pre mem =
     \<lparr>cpu_stats = Some \<lparr>cpu_usage = Some \<lparr>total_usage = Some container_ns,
                                            percpu_usage = None\<rparr>,
                         system_cpu_usage = Some system_ns,
                         online_cpus = cpus\<rparr>,
      precpu_stats = pre,
      memory_stats = (case mem of None \<Rightarrow> None | Some b \<Rightarrow> Some \<lparr>usage = Some b\<rparr>)\<rparr>"

definition counters :: "int \<Rightarrow> int \<Rightarrow> cpu_stats_dict option" where
  "counters container_ns system_ns =
     Some \<lparr>cpu_usage = Some \<lparr>total_usage = Some container_ns, percpu_usage = None\<rparr>,
           system_cpu_usage = Some system_ns,
           online_cpus = None\<rparr>"

text \<open>
  The first payload of a stream: the previous reading holds no system counter and a
  container counter of 0. One CPU, 1 MiB of memory.
\<close>

definition first_payload :: stats_dict where
  "first_payload =
     payload 100 1000 (Some 1)
       (Some \<lparr>cpu_usage = Some \<lparr>total_usage = Some 0, percpu_usage = None\<rparr>,
              system_cpu_usage = None, online_cpus = None\<rparr>)
       (Some 1048576)"

text \<open>A payload whose system counter did not advance since the previous reading.\<close>

definition stalled_payload :: stats_dict where
  "stalled_payload = payload 100 1000 (Some 1) (counters 100 1000) (Some 1048576)"

text \<open>A payload with both counters advanced: 100 of 1000, on two CPUs, 2 MiB.\<close>

definition busy_payload :: stats_dict where
  "busy_payload = payload 200 2000 (Some 2) (counters 100 1000) (Some 2097152)"

text \<open>
  An environment in which the image is local, every launch succeeds, the loop sees the
  given events and cleanup raises nothing.
\<close>

definition quiet_env :: "poll list \<Rightarrow> env" where
  "quiet_env ps =
     \<lparr>images = Local, run = (\<lambda>c. Started), polls = ps,
      stop_raises = None, remove_raises = None\<rparr>"

text \<open>
  Rounding to the nearest integer with ties to the even neighbour, in the words of the
  specification (round-half-to-even, banker's rounding): \<open>n\<close> is the rounding of \<open>x\<close>
  when it is strictly nearer than one half, or exactly one half away and even.
\<close>

definition round_half_even :: "rat \<Rightarrow> int \<Rightarrow> bool" where
  "round_half_even x n \<longleftrightarrow> \<bar>x - of_int n\<bar> < 1/2 \<or> (\<bar>x - of_int n\<bar> = 1/2 \<and> even n)"

text \<open>
  A payload of a container that holds 3579139413 bytes of memory and uses a tenth of
  one CPU: the recommendation is 1 vCPU and 5 GB.
\<close>

definition heavy_payload :: stats_dict where
  "heavy_payload = payload 200 2000 (Some 1) (counters 100 1000) (Some 3579139413)"

text \<open>
  An image without \<^verbatim>\<open>tail\<close> and \<^verbatim>\<open>sleep\<close> on its path, without a default command
  that starts, but with a shell: only the shell-wrapped launch succeeds.
\<close>

definition shell_only :: "command option \<Rightarrow> launch" where
  "shell_only c =
     (if c = Some (Argv [''/bin/sh'', ''-c'', ''sleep infinity'']) then Started
      else Fails (APIError ''exec: executable file not found in $PATH''))"

text \<open>A registry with one monitored container that has been sampled once.\<close>

definition sampled_once :: container_info where
  "sampled_once =
     \<lparr>info_image = ''nginx:latest'', cpu_history = [20], mem_history = [2],
      info_samples = 1\<rparr>"

definition one_container :: registry where
  "one_container = [''c1'' \<mapsto> sampled_once]"

section \<open>Properties\<close>

subsection \<open>Evaluation of the example payloads\<close>

lemma payload_simps:
  "system_delta first_payload = 1000" "cpu_delta first_payload = 100"
  "get_online_cpus first_payload = 1" "mem_usage first_payload = 1"
  "system_delta stalled_payload = 0" "cpu_delta stalled_payload = 0"
  "mem_usage stalled_payload = 1"
  "system_delta busy_payload = 1000" "cpu_delta busy_payload = 100"
  "online_cpus_field busy_payload = Some 2" "get_online_cpus busy_payload = 2"
  "mem_usage busy_payload = 2"
  by (simp_all add: first_payload_def stalled_payload_def busy_payload_def payload_def
      counters_def system_delta_def cpu_delta_def get_system_cpu_def get_total_usage_def
      get_online_cpus_def get_percpu_usage_def mem_usage_def online_cpus_field_def)

subsection \<open>The CPU sample\<close>

lemma get_online_cpus_spec:
  "get_online_cpus s = online_cpu_count_spec (online_cpus_field s) (percpu_usage_field s)"
  by (simp add: get_online_cpus_def online_cpu_count_spec_def online_cpus_field_def
      percpu_usage_field_def get_percpu_usage_def Let_def split: option.splits)

text \<open>
  C8: for every payload with \<open>systemDelta > 0\<close> and \<open>cpuDelta \<ge> 0\<close> the recorded CPU
  sample is \<open>(cpuDelta / systemDelta) * onlineCpuCount * 100\<close>, where the online CPU
  count is the explicit field if present and nonzero, else the length of the per-CPU
  usage array if present and non-empty, else 1. This holds for the sample appended by
  the batch loop (\<^const>\<open>record_sample\<close>) and for the one appended by the live endpoint
  (\<^const>\<open>update_history\<close>).
\<close>

theorem cpu_sample_formula:
  assumes "system_delta s > 0" and "cpu_delta s \<ge> 0"
  shows "cpu_usages (record_sample h s) =
           cpu_usages h @
             [(of_int (cpu_delta s) / of_int (system_delta s))
                * of_int (online_cpu_count_spec (online_cpus_field s) (percpu_usage_field s))
                * 100]
       \<and> cpu_history (update_history info s) =
           cpu_history info @
             [(of_int (cpu_delta s) / of_int (system_delta s))
                * of_int (online_cpu_count_spec (online_cpus_field s) (percpu_usage_field s))
                * 100]"
  using assms
  by (simp add: record_sample_def update_history_def live_cpu_percent_def delta_guard_def
      cpu_percent_def get_online_cpus_spec)

theorem cpu_sample_formula_witness:
  "system_delta busy_payload > 0 \<and> cpu_delta busy_payload \<ge> 0
   \<and> cpu_usages (record_sample empty_history busy_payload) = [20]
   \<and> cpu_history (update_history (new_container_info ''nginx:latest'') busy_payload) = [20]"
  using cpu_sample_formula [of busy_payload empty_history "new_container_info ''nginx:latest''"]
  by (simp add: payload_simps online_cpu_count_spec_def empty_history_def
      new_container_info_def)

subsection \<open>The collection loop\<close>

lemma record_sample_skips:
  "\<not> delta_guard s \<Longrightarrow> cpu_usages (record_sample h s) = cpu_usages h"
  by (simp add: record_sample_def)

lemma update_history_zero:
  "\<not> delta_guard s \<Longrightarrow> cpu_history (update_history info s) = cpu_history info @ [0]"
  by (simp add: update_history_def live_cpu_percent_def)



lemma quiet_run_report:
  "snd (estimate_single_image (quiet_env [Snapshot stalled_payload, Snapshot busy_payload])
         ''nginx:latest'' 20 None)
   = Report \<lparr>image = ''nginx:latest'', duration_sec = 20, cpu_avg = 20, cpu_peak = 20,
              mem_avg_mb = 3/2, mem_peak_mb = 2, vcpu = 1, ram_gb = 0,
              instance_names = \<lparr>aws = ''t3.micro'', gcp = ''e2-micro'', azure = ''B1s''\<rparr>,
              samples = 2\<rparr>"
  by code_simp


lemma report_samples:
  "snd (estimate_single_image environment image_name d c) = Report r \<Longrightarrow>
   samples r = sample_count (fst (collect (polls environment) empty_history))
   \<and> aggregate (cpu_usages (fst (collect (polls environment) empty_history)))
        (mem_usages (fst (collect (polls environment) empty_history))) \<noteq> NoStatsCollected"
  by (auto simp: estimate_single_image_def outer_handler_def Let_def
      split: image_lookup.splits prod.splits start_result.splits loop_end.splits
        aggregate_result.splits if_splits)

text \<open>
  C6, as the specification states it, fails: the loop keeps no previous snapshot, the
  deltas are taken against the \<open>precpu_stats\<close> entry of the payload itself, and an
  absent or zero previous reading lets the guard pass. On the first payload of a stream
  the first iteration records the CPU data point 10.
\<close>

theorem first_iteration_counterexample:
  "cpu_usages (fst (collect [Snapshot first_payload] empty_history)) = [10]"
  by (simp add: record_sample_def empty_history_def delta_guard_def cpu_percent_def
      payload_simps)

text \<open>
  C6, amended: the first iteration is treated like every other one. Its memory value
  is always appended to the memory history, and a CPU data point is appended exactly
  when the delta guard of its payload passes; the loop then goes on from that history.
\<close>

theorem first_iteration_like_any_other:
  "collect (Snapshot s # ps) empty_history =
     collect ps \<lparr>cpu_usages = (if delta_guard s then [cpu_percent s] else []),
                 mem_usages = [mem_usage s],
                 sample_count = 1\<rparr>
   \<and> mem_usages (record_sample empty_history s) = [mem_usage s]
   \<and> (cpu_usages (record_sample empty_history s) = [] \<longleftrightarrow> \<not> delta_guard s)"
  by (simp add: record_sample_def empty_history_def)

theorem first_iteration_like_any_other_witness:
  "fst (collect [Snapshot stalled_payload, Snapshot busy_payload] empty_history) =
     \<lparr>cpu_usages = [20], mem_usages = [1, 2], sample_count = 2\<rparr>"
  using first_iteration_like_any_other [of stalled_payload "[Snapshot busy_payload]"]
  by (simp add: record_sample_def delta_guard_def cpu_percent_def payload_simps)


text \<open>
  C1 holds in the two batch paths (\<open>record_sample_skips\<close>) and fails in the live path
  (\<open>update_history_zero\<close>). On a payload whose system counter did not advance the batch
  loop leaves the CPU history empty, while \<^verbatim>\<open>api_live_test_stats\<close> stores the value 0
  in the CPU history of the registry entry.
\<close>

theorem live_path_records_zero:
  "system_delta stalled_payload = 0
   \<and> cpu_usages (record_sample empty_history stalled_payload) = []
   \<and> snd (api_live_test_stats [''c1'' \<mapsto> new_container_info ''nginx:latest''] ''c1''
             (Payload stalled_payload)) ''c1''
       = Some \<lparr>info_image = ''nginx:latest'', cpu_history = [0], mem_history = [1],
               info_samples = 1\<rparr>"
  by (simp add: record_sample_def empty_history_def delta_guard_def payload_simps
      api_live_test_stats_def update_history_def live_cpu_percent_def
      new_container_info_def Let_def)

subsection \<open>Aggregation\<close>

lemma fold_max_mem: "fold max ys (x::rat) \<in> set (x # ys)"
proof (induction ys arbitrary: x)
  case Nil
  show ?case by simp
next
  case (Cons y ys)
  have "fold max ys (max y x) \<in> set (max y x # ys)" by (rule Cons.IH)
  moreover have "max y x = x \<or> max y x = y" by (simp add: max_def)
  ultimately show ?case by auto
qed

lemma fold_max_ge: "\<forall>z\<in>set (x # ys). z \<le> fold max ys (x::rat)"
proof (induction ys arbitrary: x)
  case Nil
  show ?case by simp
next
  case (Cons y ys)
  have ih: "\<forall>z\<in>set (max y x # ys). z \<le> fold max ys (max y x)" by (rule Cons.IH)
  then have "max y x \<le> fold max ys (max y x)" by simp
  moreover have "x \<le> max y x" "y \<le> max y x" by simp_all
  ultimately have "x \<le> fold max ys (max y x)" "y \<le> fold max ys (max y x)"
    by linarith+
  then show ?case using ih by simp
qed

lemma py_max_nonempty:
  "xs \<noteq> [] \<Longrightarrow> \<exists>m. py_max xs = Inr m \<and> m \<in> set xs \<and> (\<forall>x\<in>set xs. x \<le> m)"
proof (cases xs)
  case Nil
  assume "xs \<noteq> []"
  with Nil show ?thesis by simp
next
  case (Cons x ys)
  have "fold max ys x \<in> set (x # ys)" by (rule fold_max_mem)
  moreover have "\<forall>z\<in>set (x # ys). z \<le> fold max ys x" by (rule fold_max_ge)
  ultimately show ?thesis using Cons by (simp add: py_max_def)
qed

lemma statistics_mean_nonempty:
  "xs \<noteq> [] \<Longrightarrow> \<exists>a. statistics_mean xs = Inr a \<and> a * of_nat (length xs) = sum_list xs"
  by (simp add: statistics_mean_def)

lemma aggregate_nonempty:
  assumes "cpu \<noteq> []" and "mem \<noteq> []"
  shows "\<exists>a. aggregate cpu mem = Stats a
           \<and> avg_cpu a * of_nat (length cpu) = sum_list cpu
           \<and> peak_cpu a \<in> set cpu \<and> (\<forall>x\<in>set cpu. x \<le> peak_cpu a)
           \<and> avg_mem a * of_nat (length mem) = sum_list mem
           \<and> peak_mem a \<in> set mem \<and> (\<forall>x\<in>set mem. x \<le> peak_mem a)"
proof -
  obtain ac where ac: "statistics_mean cpu = Inr ac" "ac * of_nat (length cpu) = sum_list cpu"
    using statistics_mean_nonempty [OF assms(1)] by blast
  obtain pc where pc: "py_max cpu = Inr pc" "pc \<in> set cpu" "\<forall>x\<in>set cpu. x \<le> pc"
    using py_max_nonempty [OF assms(1)] by blast
  obtain am where am: "statistics_mean mem = Inr am" "am * of_nat (length mem) = sum_list mem"
    using statistics_mean_nonempty [OF assms(2)] by blast
  obtain pm where pm: "py_max mem = Inr pm" "pm \<in> set mem" "\<forall>x\<in>set mem. x \<le> pm"
    using py_max_nonempty [OF assms(2)] by blast
  have "aggregate cpu mem =
          Stats \<lparr>avg_cpu = ac, peak_cpu = pc, avg_mem = am, peak_mem = pm\<rparr>"
    using assms ac(1) pc(1) am(1) pm(1) by (simp add: aggregate_def)
  then show ?thesis using ac(2) pc(2,3) am(2) pm(2,3) by simp
qed

lemma report_needs_samples:
  "snd (estimate_single_image environment image_name d c) = Report r \<Longrightarrow>
   cpu_usages (fst (collect (polls environment) empty_history)) \<noteq> []
   \<and> mem_usages (fst (collect (polls environment) empty_history)) \<noteq> []"
  using report_samples [of environment image_name d c r] by (auto simp: aggregate_def)

lemma saved_needs_samples:
  "snd (snd (estimate_resources environment image_name d c)) = Saved r \<Longrightarrow>
   cpu_usages (fst (collect (polls environment) empty_history)) \<noteq> []
   \<and> mem_usages (fst (collect (polls environment) empty_history)) \<noteq> []"
  by (auto simp: estimate_resources_def Let_def aggregate_def
      split: image_lookup.splits prod.splits start_result.splits option.splits
        aggregate_result.splits if_splits)

text \<open>
  C2: the aggregation step of both batch paths fails with the dedicated empty-history
  result whenever the CPU series or the memory series is empty, and so never yields
  statistics for such a history; when both series are non-empty it yields, for each
  series, its arithmetic mean and its maximum. A run of \<^verbatim>\<open>estimate_single_image\<close>
  or \<^verbatim>\<open>estimate_resources\<close> that ends with a report collected both series non-empty.
\<close>

theorem aggregate_empty_history:
  "(cpu = [] \<or> mem = [] \<longrightarrow> aggregate cpu mem = NoStatsCollected)
   \<and> (cpu \<noteq> [] \<and> mem \<noteq> [] \<longrightarrow>
        (\<exists>a. aggregate cpu mem = Stats a
           \<and> avg_cpu a * of_nat (length cpu) = sum_list cpu
           \<and> peak_cpu a \<in> set cpu \<and> (\<forall>x\<in>set cpu. x \<le> peak_cpu a)
           \<and> avg_mem a * of_nat (length mem) = sum_list mem
           \<and> peak_mem a \<in> set mem \<and> (\<forall>x\<in>set mem. x \<le> peak_mem a)))
   \<and> (\<forall>r. snd (estimate_single_image environment image_name d c) = Report r \<longrightarrow>
        cpu_usages (fst (collect (polls environment) empty_history)) \<noteq> []
        \<and> mem_usages (fst (collect (polls environment) empty_history)) \<noteq> [])
   \<and> (\<forall>r. snd (snd (estimate_resources environment image_name d c)) = Saved r \<longrightarrow>
        cpu_usages (fst (collect (polls environment) empty_history)) \<noteq> []
        \<and> mem_usages (fst (collect (polls environment) empty_history)) \<noteq> [])"
proof (intro conjI impI allI)
  assume "cpu = [] \<or> mem = []"
  then show "aggregate cpu mem = NoStatsCollected" by (auto simp: aggregate_def)
next
  assume "cpu \<noteq> [] \<and> mem \<noteq> []"
  then show "\<exists>a. aggregate cpu mem = Stats a
           \<and> avg_cpu a * of_nat (length cpu) = sum_list cpu
           \<and> peak_cpu a \<in> set cpu \<and> (\<forall>x\<in>set cpu. x \<le> peak_cpu a)
           \<and> avg_mem a * of_nat (length mem) = sum_list mem
           \<and> peak_mem a \<in> set mem \<and> (\<forall>x\<in>set mem. x \<le> peak_mem a)"
    using aggregate_nonempty by blast
next
  fix r assume "snd (estimate_single_image environment image_name d c) = Report r"
  then show "cpu_usages (fst (collect (polls environment) empty_history)) \<noteq> []"
    and "mem_usages (fst (collect (polls environment) empty_history)) \<noteq> []"
    using report_needs_samples by blast+
next
  fix r assume "snd (snd (estimate_resources environment image_name d c)) = Saved r"
  then show "cpu_usages (fst (collect (polls environment) empty_history)) \<noteq> []"
    and "mem_usages (fst (collect (polls environment) empty_history)) \<noteq> []"
    using saved_needs_samples by blast+
qed

lemma quiet_run_saved:
  "snd (snd (estimate_resources (quiet_env [Snapshot stalled_payload, Snapshot busy_payload])
         ''nginx:latest'' 20 None))
   = Saved \<lparr>report_image = ''nginx:latest'', report_duration_sec = 20,
             report_stats = \<lparr>avg_cpu = 20, peak_cpu = 20, avg_mem = 3/2, peak_mem = 2\<rparr>,
             report_vcpu = 1, report_ram_gb = 0\<rparr>"
  by code_simp

theorem aggregate_empty_history_witness:
  "aggregate [] [1] = NoStatsCollected
   \<and> aggregate [10] [] = NoStatsCollected
   \<and> aggregate [10, 30] [1, 2] =
        Stats \<lparr>avg_cpu = 20, peak_cpu = 30, avg_mem = 3/2, peak_mem = 2\<rparr>
   \<and> cpu_usages (fst (collect (polls (quiet_env [Snapshot stalled_payload,
          Snapshot busy_payload])) empty_history)) \<noteq> []"
proof -
  have "aggregate [] [1] = NoStatsCollected"
    using aggregate_empty_history [of "[]" "[1]"] by simp
  moreover have "aggregate [10] [] = NoStatsCollected"
    using aggregate_empty_history [of "[10]" "[]"] by simp
  moreover have "aggregate [10, 30] [1, 2] =
        Stats \<lparr>avg_cpu = 20, peak_cpu = 30, avg_mem = 3/2, peak_mem = 2\<rparr>"
    using aggregate_empty_history [of "[10, 30]" "[1, 2]"]
    by (simp add: aggregate_def statistics_mean_def py_max_def)
  moreover have "cpu_usages (fst (collect (polls (quiet_env [Snapshot stalled_payload,
          Snapshot busy_payload])) empty_history)) \<noteq> []"
    using aggregate_empty_history
      [of _ _ "quiet_env [Snapshot stalled_payload, Snapshot busy_payload]"
        "''nginx:latest''" 20 None]
      quiet_run_report quiet_run_saved
    by blast
  ultimately show ?thesis by blast
qed

subsection \<open>Rounding and the sizing recommendation\<close>

lemma c_round_near: "\<bar>x - of_int (c_round x)\<bar> \<le> 1/2"
proof (cases "x \<ge> 0")
  case True
  have "of_int \<lfloor>x + 1/2\<rfloor> \<le> x + 1/2" "x + 1/2 < of_int \<lfloor>x + 1/2\<rfloor> + 1"
    by linarith+
  then show ?thesis using True unfolding c_round_def by (simp only: if_True; linarith)
next
  case False
  have "of_int \<lceil>x - 1/2\<rceil> - 1 < x - 1/2" "x - 1/2 \<le> of_int \<lceil>x - 1/2\<rceil>"
    by linarith+
  then show ?thesis using False unfolding c_round_def by (simp only: if_False; linarith)
qed

lemma c_round_quarter: "c_round (of_int j + 1/4) = j"
proof (cases "(of_int j + 1/4 :: rat) \<ge> 0")
  case True
  have "\<lfloor>(of_int j + 1/4 :: rat) + 1/2\<rfloor> = j" by (rule floor_unique) simp_all
  then show ?thesis using True by (simp add: c_round_def)
next
  case False
  have "\<lceil>(of_int j + 1/4 :: rat) - 1/2\<rceil> = j" by (rule ceiling_unique) simp_all
  then show ?thesis using False by (simp add: c_round_def)
qed

lemma c_round_three_quarters: "c_round (of_int j + 3/4) = j + 1"
proof (cases "(of_int j + 3/4 :: rat) \<ge> 0")
  case True
  have "\<lfloor>(of_int j + 3/4 :: rat) + 1/2\<rfloor> = j + 1" by (rule floor_unique) simp_all
  then show ?thesis using True by (simp add: c_round_def)
next
  case False
  have "\<lceil>(of_int j + 3/4 :: rat) - 1/2\<rceil> = j + 1" by (rule ceiling_unique) simp_all
  then show ?thesis using False by (simp add: c_round_def)
qed

lemma py_round_tie:
  assumes "x = of_int k + 1/2"
  shows "\<bar>x - of_int (2 * c_round (x / 2))\<bar> = 1/2"
proof (cases "even k")
  case True
  then obtain j where k: "k = 2 * j" by (elim evenE)
  have "x / 2 = of_int j + 1/4" using assms k by simp
  then have "c_round (x / 2) = j" by (simp only: c_round_quarter)
  then show ?thesis using assms k by simp
next
  case False
  then obtain j where k: "k = 2 * j + 1" by (elim oddE)
  have "x / 2 = of_int j + 3/4" using assms k by simp
  then have "c_round (x / 2) = j + 1" by (simp only: c_round_three_quarters)
  then show ?thesis using assms k by simp
qed

lemma py_round_half_even: "round_half_even x (py_round x)"
proof (cases "\<bar>x - of_int (c_round x)\<bar> = 1/2")
  case False
  then have "\<bar>x - of_int (c_round x)\<bar> < 1/2" using c_round_near [of x] by linarith
  then show ?thesis using False by (simp add: round_half_even_def py_round_def Let_def)
next
  case True
  then have "x = of_int (c_round x) + 1/2 \<or> x = of_int (c_round x - 1) + 1/2"
    by (auto simp: abs_if split: if_splits)
  then obtain k :: int where "x = of_int k + 1/2" by blast
  then have "\<bar>x - of_int (2 * c_round (x / 2))\<bar> = 1/2" by (rule py_round_tie)
  then show ?thesis using True by (simp add: round_half_even_def py_round_def Let_def)
qed

lemma round_half_even_unique:
  assumes "round_half_even x n" and "round_half_even x m"
  shows "n = m"
proof -
  have le: "\<bar>x - of_int n\<bar> \<le> 1/2" "\<bar>x - of_int m\<bar> \<le> 1/2"
    using assms by (auto simp: round_half_even_def)
  show ?thesis
  proof (cases "\<bar>x - of_int n\<bar> = 1/2 \<and> \<bar>x - of_int m\<bar> = 1/2")
    case True
    then have "even n" "even m" using assms by (auto simp: round_half_even_def)
    have "\<bar>(of_int n :: rat) - of_int m\<bar> \<le> 1" using le by linarith
    then have "\<bar>(of_int (n - m) :: rat)\<bar> \<le> of_int 1" by simp
    then have "\<bar>n - m\<bar> \<le> 1" by (metis of_int_abs of_int_le_iff)
    moreover have "even (n - m)" using \<open>even n\<close> \<open>even m\<close> by simp
    ultimately show ?thesis by presburger
  next
    case False
    then have "\<bar>(of_int n :: rat) - of_int m\<bar> < 1" using le by linarith
    then have "\<bar>(of_int (n - m) :: rat)\<bar> < of_int 1" by simp
    then have "\<bar>n - m\<bar> < 1" by (metis of_int_abs of_int_less_iff)
    then show ?thesis by simp
  qed
qed

lemma py_round_eq: "round_half_even x n \<Longrightarrow> py_round x = n"
  using py_round_half_even round_half_even_unique by blast

text \<open>
  C3: for every peak CPU percentage and peak memory the recommender computes
  \<open>vcpu = max(1, round(peakCpuPercent / 80))\<close> and
  \<open>ramGB = round(peakMemMB * 1.5 / 1024, 2)\<close>, where the rounding of the runtime is
  rounding to nearest with ties to even: it always yields such a rounding, and the
  results are the ones built from any integer that is one. In particular
  \<open>recommend(10, 100)\<close> gives \<open>vcpu = 1\<close> and \<open>ramGB = 0.15\<close>.
\<close>

theorem recommended_size:
  "round_half_even (peak_cpu_percent / 80) (py_round (peak_cpu_percent / 80))
   \<and> round_half_even (peak_mem_mb * 1.5 / 1024 * 10 ^ 2)
        (py_round (peak_mem_mb * 1.5 / 1024 * 10 ^ 2))
   \<and> (\<forall>n. round_half_even (peak_cpu_percent / 80) n \<longrightarrow>
          recommended_vcpu peak_cpu_percent = max 1 n)
   \<and> (\<forall>k. round_half_even (peak_mem_mb * 1.5 / 1024 * 10 ^ 2) k \<longrightarrow>
          recommended_ram peak_mem_mb = of_int k / 10 ^ 2)
   \<and> recommended_vcpu 10 = 1
   \<and> recommended_ram 100 = 0.15"
proof (intro conjI allI impI)
  show "round_half_even (peak_cpu_percent / 80) (py_round (peak_cpu_percent / 80))"
    by (rule py_round_half_even)
  show "round_half_even (peak_mem_mb * 1.5 / 1024 * 10 ^ 2)
        (py_round (peak_mem_mb * 1.5 / 1024 * 10 ^ 2))"
    by (rule py_round_half_even)
next
  fix n assume "round_half_even (peak_cpu_percent / 80) n"
  then have "py_round (peak_cpu_percent / 80) = n" by (rule py_round_eq)
  then show "recommended_vcpu peak_cpu_percent = max 1 n"
    by (simp only: recommended_vcpu_def)
next
  fix k assume "round_half_even (peak_mem_mb * 1.5 / 1024 * 10 ^ 2) k"
  then have "py_round (peak_mem_mb * 1.5 / 1024 * 10 ^ 2) = k" by (rule py_round_eq)
  then show "recommended_ram peak_mem_mb = of_int k / 10 ^ 2"
    by (simp only: recommended_ram_def py_round_ndigits_def)
next
  show "recommended_vcpu 10 = 1" by code_simp
  show "recommended_ram 100 = 0.15" by code_simp
qed

theorem recommended_size_witness:
  "round_half_even (10 / 80) 0 \<and> recommended_vcpu 10 = max 1 0
   \<and> round_half_even (200 / 80) 2 \<and> recommended_vcpu 200 = max 1 2
   \<and> round_half_even (100 * 1.5 / 1024 * 10 ^ 2) 15
   \<and> recommended_ram 100 = of_int 15 / 10 ^ 2"
proof -
  have a: "round_half_even (10 / 80) 0" "round_half_even (200 / 80) 2"
    "round_half_even (100 * 1.5 / 1024 * 10 ^ 2) 15"
    by (simp_all add: round_half_even_def)
  show ?thesis using a recommended_size [of 10 100] recommended_size [of 200 100] by blast
qed

subsection \<open>The instance table\<close>

lemma instance_table:
  "v = 1 \<and> g \<le> 1 \<Longrightarrow> get_instance_recommendations v g =
     \<lparr>aws = ''t3.micro'', gcp = ''e2-micro'', azure = ''B1s''\<rparr>"
  "v = 1 \<and> 1 < g \<and> g \<le> 2 \<Longrightarrow> get_instance_recommendations v g =
     \<lparr>aws = ''t3.small'', gcp = ''e2-small'', azure = ''B1ms''\<rparr>"
  "v = 2 \<Longrightarrow> get_instance_recommendations v g =
     \<lparr>aws = ''t3.medium'', gcp = ''e2-medium'', azure = ''B2s''\<rparr>"
  "v \<noteq> 2 \<and> \<not> (v = 1 \<and> g \<le> 2) \<Longrightarrow> get_instance_recommendations v g =
     \<lparr>aws = ''t3.large+'', gcp = ''e2-standard+'', azure = ''B2ms+''\<rparr>"
  by (auto simp: get_instance_recommendations_def)

lemma printed_instances_table:
  "v = 2 \<or> (v = 1 \<and> g \<le> 2) \<Longrightarrow>
     printed_instances v g = get_instance_recommendations v g"
  "v \<noteq> 2 \<and> \<not> (v = 1 \<and> g \<le> 2) \<Longrightarrow> printed_instances v g =
     \<lparr>aws = ''t3.large+'', gcp = ''e2-standard'', azure = ''B2ms+''\<rparr>"
  by (auto simp: printed_instances_def get_instance_recommendations_def)

lemma heavy_run_printed:
  "fst (snd (estimate_resources (quiet_env [Snapshot heavy_payload]) ''nginx:latest'' 20 None))
   = [CleaningUp,
      RecommendedInstances \<lparr>aws = ''t3.large+'', gcp = ''e2-standard'', azure = ''B2ms+''\<rparr>]"
  by code_simp

lemma heavy_run_report:
  "snd (estimate_single_image (quiet_env [Snapshot heavy_payload]) ''nginx:latest'' 20 None)
   = Report \<lparr>image = ''nginx:latest'', duration_sec = 20, cpu_avg = 10, cpu_peak = 10,
              mem_avg_mb = 341333 / 100, mem_peak_mb = 341333 / 100, vcpu = 1, ram_gb = 5,
              instance_names =
                \<lparr>aws = ''t3.large+'', gcp = ''e2-standard+'', azure = ''B2ms+''\<rparr>,
              samples = 1\<rparr>"
  by code_simp

text \<open>
  C4 holds for \<^verbatim>\<open>get_instance_recommendations\<close> (\<open>instance_table\<close>): the table is
  total and ordered, and 1 vCPU with 5 GB falls through to the catch-all. The table
  printed by \<^verbatim>\<open>estimate_resources\<close> takes the same decisions but names the catch-all
  tier of GCP \<open>e2-standard\<close>, without the plus sign: at 1 vCPU and 5 GB the two paths
  differ, and so do two runs in the same environment.
\<close>

theorem printed_catch_all_name:
  "get_instance_recommendations 1 5 =
     \<lparr>aws = ''t3.large+'', gcp = ''e2-standard+'', azure = ''B2ms+''\<rparr>
   \<and> printed_instances 1 5 =
     \<lparr>aws = ''t3.large+'', gcp = ''e2-standard'', azure = ''B2ms+''\<rparr>
   \<and> fst (snd (estimate_resources (quiet_env [Snapshot heavy_payload]) ''nginx:latest'' 20
        None))
     = [CleaningUp,
        RecommendedInstances
          \<lparr>aws = ''t3.large+'', gcp = ''e2-standard'', azure = ''B2ms+''\<rparr>]"
  using heavy_run_printed
  by (simp add: get_instance_recommendations_def printed_instances_def)

subsection \<open>The fallback chain of the start phase\<close>

lemma start_container_never_shell_wrapped:
  "Run (Some (Argv args)) \<notin> set (fst (start_container launcher custom_command))"
  by (auto simp: start_container_def Let_def split: launch.splits exn.splits if_splits)

lemma start_container_cli_chain:
  assumes "\<not> given custom_command"
    and "launcher (Some (Shell ''tail -f /dev/null'')) = Fails (APIError msg)"
    and "str_in ''executable file not found'' msg"
    and "\<forall>c. launcher c = Started \<or> (\<exists>m. launcher c = Fails (APIError m))"
  shows "start_container_cli launcher custom_command =
     (if launcher (Some (Shell ''sleep infinity'')) = Started then
        ([Run (Some (Shell ''tail -f /dev/null'')), Run (Some (Shell ''sleep infinity''))],
         Running)
      else if launcher (Some (Argv [''/bin/sh'', ''-c'', ''sleep infinity''])) = Started then
        ([Run (Some (Shell ''tail -f /dev/null'')), Run (Some (Shell ''sleep infinity'')),
          Run (Some (Argv [''/bin/sh'', ''-c'', ''sleep infinity'']))], Running)
      else if launcher None = Started then
        ([Run (Some (Shell ''tail -f /dev/null'')), Run (Some (Shell ''sleep infinity'')),
          Run (Some (Argv [''/bin/sh'', ''-c'', ''sleep infinity''])), Run None], Running)
      else
        ([Run (Some (Shell ''tail -f /dev/null'')), Run (Some (Shell ''sleep infinity'')),
          Run (Some (Argv [''/bin/sh'', ''-c'', ''sleep infinity''])), Run None],
         StartFailed (case launcher None of Fails e \<Rightarrow> e)))"
proof -
  let ?sleep = "Some (Shell ''sleep infinity'')"
  let ?sh = "Some (Argv [''/bin/sh'', ''-c'', ''sleep infinity''])"
  from assms(4) have "launcher ?sleep = Started \<or> (\<exists>m. launcher ?sleep = Fails (APIError m))"
    and "launcher ?sh = Started \<or> (\<exists>m. launcher ?sh = Fails (APIError m))"
    and "launcher None = Started \<or> (\<exists>m. launcher None = Fails (APIError m))"
    by blast+
  then show ?thesis
    using assms(1,2,3) by (auto simp: start_container_cli_def Let_def)
qed

text \<open>
  C7 holds for the command line tool (\<open>start_container_cli_chain\<close>) and fails for
  \<^verbatim>\<open>estimate_single_image\<close>, whose chain has no shell-wrapped step
  (\<open>start_container_never_shell_wrapped\<close>). For an image on which only the shell-wrapped
  launch succeeds, the command line tool starts the container at the third launch;
  \<^verbatim>\<open>estimate_single_image\<close> tries the keep-alive, the infinite sleep and the default
  command, and fails.
\<close>

theorem fallback_chain_without_shell:
  "start_container_cli shell_only None =
     ([Run (Some (Shell ''tail -f /dev/null'')), Run (Some (Shell ''sleep infinity'')),
       Run (Some (Argv [''/bin/sh'', ''-c'', ''sleep infinity'']))], Running)
   \<and> start_container shell_only None =
     ([Run (Some (Shell ''tail -f /dev/null'')), Run (Some (Shell ''sleep infinity'')),
       Run None],
      StartFailed (APIError ''exec: executable file not found in $PATH''))"
  by (simp add: start_container_cli_def start_container_def shell_only_def given_def
      is_Exception_def Let_def)

subsection \<open>Cleanup\<close>

lemma stop_and_remove_once:
  "count_list (fst (stop_and_remove stop_exn remove_exn)) Stop = 1
   \<and> count_list (fst (stop_and_remove stop_exn remove_exn)) Remove \<le> 1"
  by (simp add: stop_and_remove_def split: option.splits)

lemma estimate_single_image_ignores_cleanup:
  "snd (estimate_single_image (environment\<lparr>stop_raises := a, remove_raises := b\<rparr>)
         image_name d c)
   = snd (estimate_single_image environment image_name d c)"
  by (simp add: estimate_single_image_def Let_def
      split: image_lookup.splits prod.splits start_result.splits)

lemma estimate_resources_swallows_cleanup:
  assumes "is_Exception e"
  shows "snd (snd (estimate_resources (environment\<lparr>stop_raises := Some e\<rparr>) image_name d c))
       = snd (snd (estimate_resources (environment\<lparr>stop_raises := None, remove_raises := None\<rparr>)
           image_name d c))"
  using assms
  by (simp add: estimate_resources_def cleanup_cli_def stop_and_remove_def Let_def
      split: image_lookup.splits prod.splits start_result.splits aggregate_result.splits)

lemma api_stop_live_test_propagates:
  assumes "live_containers container_id = Some info"
    and "live_recommendations info = Inr recs"
    and "is_Exception e"
  shows "api_stop_live_test live_containers container_id (Some e) remove_exn
       = (StopError (ExceptionText e), live_containers, [Stop])"
  using assms by (simp add: api_stop_live_test_def stop_and_remove_def stop_handler_def)

lemma one_container_recommendations:
  "live_recommendations sampled_once
   = Inr (Some \<lparr>rec_vcpu = 1, rec_ram_gb = 0,
                 rec_instances = \<lparr>aws = ''t3.micro'', gcp = ''e2-micro'', azure = ''B1s''\<rparr>,
                 rec_cpu_avg = 20, rec_cpu_peak = 20, rec_mem_avg_mb = 2,
                 rec_mem_peak_mb = 2, rec_samples = 1\<rparr>)"
  by code_simp

text \<open>
  C5 holds for the two batch paths: their \<^verbatim>\<open>finally\<close> block runs the cleanup once and
  its own handler keeps a failure away from the result
  (\<open>estimate_resources_swallows_cleanup\<close>, \<open>estimate_single_image_ignores_cleanup\<close>). It
  fails for \<^verbatim>\<open>api_stop_live_test\<close>, where the cleanup stands in the same \<^verbatim>\<open>try\<close> as
  the result: when \<^verbatim>\<open>container.stop()\<close> raises, the response is the text of that
  exception, the recommendations computed before are lost and the registry keeps the
  entry, while the same call without the failure returns the recommendations.
\<close>

theorem live_stop_cleanup_failure:
  "api_stop_live_test one_container ''c1'' (Some (APIError ''500 Server Error'')) None
     = (StopError (ExceptionText (APIError ''500 Server Error'')), one_container, [Stop])
   \<and> fst (api_stop_live_test one_container ''c1'' None None)
     = StopSuccess
         (Some \<lparr>rec_vcpu = 1, rec_ram_gb = 0,
                 rec_instances = \<lparr>aws = ''t3.micro'', gcp = ''e2-micro'', azure = ''B1s''\<rparr>,
                 rec_cpu_avg = 20, rec_cpu_peak = 20, rec_mem_avg_mb = 2,
                 rec_mem_peak_mb = 2, rec_samples = 1\<rparr>)"
  by (simp add: api_stop_live_test_def one_container_def one_container_recommendations
      stop_and_remove_def stop_handler_def is_Exception_def)

subsection \<open>Stopping twice\<close>

lemma api_stop_live_test_success:
  "fst (api_stop_live_test live_containers container_id stop_exn remove_exn) = StopSuccess recs
   \<Longrightarrow> fst (snd (api_stop_live_test live_containers container_id stop_exn remove_exn))
         = live_containers(container_id := None)
       \<and> snd (snd (api_stop_live_test live_containers container_id stop_exn remove_exn))
         = [Stop, Remove]"
  by (auto simp: api_stop_live_test_def stop_and_remove_def stop_handler_def
      split: option.splits sum.splits prod.splits if_splits)

text \<open>
  After a call of \<^verbatim>\<open>api_stop_live_test\<close> that returned the success response, a second
  call for the same container makes no call on the container, leaves the registry as the
  first call left it and answers that the container is not found.
\<close>

lemma second_stop_after_success:
  assumes "fst (api_stop_live_test live_containers container_id stop_exn remove_exn)
             = StopSuccess recs"
  shows "api_stop_live_test
           (fst (snd (api_stop_live_test live_containers container_id stop_exn remove_exn)))
           container_id stop_exn' remove_exn'
         = (StopError ContainerNotFound,
            fst (snd (api_stop_live_test live_containers container_id stop_exn remove_exn)),
            [])
       \<and> snd (snd (api_stop_live_test live_containers container_id stop_exn remove_exn))
         = [Stop, Remove]"
  using api_stop_live_test_success [OF assms] by (simp add: api_stop_live_test_def)

lemma second_stop_after_success_example:
  "(\<exists>recs. fst (api_stop_live_test one_container ''c1'' None None) = StopSuccess recs)
   \<and> api_stop_live_test (fst (snd (api_stop_live_test one_container ''c1'' None None)))
        ''c1'' None None
     = (StopError ContainerNotFound,
        fst (snd (api_stop_live_test one_container ''c1'' None None)), [])"
proof -
  have first: "fst (api_stop_live_test one_container ''c1'' None None)
     = StopSuccess
         (Some \<lparr>rec_vcpu = 1, rec_ram_gb = 0,
                 rec_instances = \<lparr>aws = ''t3.micro'', gcp = ''e2-micro'', azure = ''B1s''\<rparr>,
                 rec_cpu_avg = 20, rec_cpu_peak = 20, rec_mem_avg_mb = 2,
                 rec_mem_peak_mb = 2, rec_samples = 1\<rparr>)"
    by (simp add: api_stop_live_test_def one_container_def one_container_recommendations
        stop_and_remove_def)
  from second_stop_after_success [OF first, of None None] first show ?thesis by blast
qed

lemma api_stop_live_test_remove_fails:
  assumes "live_containers container_id = Some info"
    and "live_recommendations info = Inr recs"
    and "is_Exception e"
  shows "api_stop_live_test live_containers container_id None (Some e)
       = (StopError (ExceptionText e), live_containers, [Stop, Remove])"
  using assms by (simp add: api_stop_live_test_def stop_and_remove_def stop_handler_def)

text \<open>
  C9 holds after a stop call that returned the success response
  (\<open>second_stop_after_success\<close>) and fails for a run that was stopped by a call whose
  \<^verbatim>\<open>container.remove()\<close> raised: \<^verbatim>\<open>container.stop()\<close> has stopped the container,
  but \<^verbatim>\<open>del live_containers[container_id]\<close> stands behind the raising call in the same
  \<^verbatim>\<open>try\<close>, so the registry keeps the entry and a second call stops and removes the
  container again.
\<close>

theorem second_stop_repeats_cleanup:
  "api_stop_live_test one_container ''c1'' None (Some (APIError ''409 Conflict''))
     = (StopError (ExceptionText (APIError ''409 Conflict'')), one_container, [Stop, Remove])
   \<and> snd (snd (api_stop_live_test
         (fst (snd (api_stop_live_test one_container ''c1'' None
            (Some (APIError ''409 Conflict'')))))
         ''c1'' None None))
     = [Stop, Remove]"
  by (simp add: api_stop_live_test_def one_container_def one_container_recommendations
      stop_and_remove_def stop_handler_def is_Exception_def)

end
